theory Spec2Isabelle
  imports Complex_Main
begin

section \<open>Python values and errors\<close>

text \<open>
  The module \<^verbatim>\<open>tools/ci/python_packages/ttfw_idf/__init__.py\<close> is embedded function by
  function. Strings are lists of characters and the model covers ASCII text: chip names,
  metric names and the threshold headers are ASCII. The values that reach the keyword
  arguments of the registration decorators are \<^verbatim>\<open>None\<close>, strings, lists of strings,
  integers, booleans and class references.
\<close>

datatype pyval =
    PNone
  | PStr string
  | PList "string list"
  | PInt int
  | PBool bool
  | PClass string

text \<open>
  Numbers of the performance check: a measured value is a Python int or float, a threshold
  is a float. Finite values are rationals and are compared exactly, as Python compares
  them; the infinities and NaN are values of their own.
\<close>

datatype pynum = Fin rat | PosInf | NegInf | NaN

text \<open>
  Exceptions. \<open>AssertionError item value standard_value\<close> is the error raised by
  \<^verbatim>\<open>_check_perf\<close>, whose message is
  \<^verbatim>\<open>"[Performance] {} value is {}, doesn't meet pass standard {}".format(item, value, standard_value)\<close>:
  the constructor keeps the three format arguments.
\<close>

datatype error =
    ValueError string
  | TypeError
  | AttributeError
  | KeyError string
  | IOError
  | AssertionError string pynum pynum
  | OtherError string

type_synonym 'a result = "error + 'a"

definition bind_result :: "'a result \<Rightarrow> ('a \<Rightarrow> 'b result) \<Rightarrow> 'b result" where
  "bind_result r f = (case r of Inl e \<Rightarrow> Inl e | Inr v \<Rightarrow> f v)"

section \<open>String helpers of the Python runtime\<close>

text \<open>\<^verbatim>\<open>str.upper()\<close> on ASCII text: the letters a..z move to A..Z.\<close>

definition char_upper :: "char \<Rightarrow> char" where
  "char_upper c =
     (let n = (of_char c :: nat) in if 97 \<le> n \<and> n \<le> 122 then char_of (n - 32) else c)"

definition py_upper :: "string \<Rightarrow> string" where
  "py_upper s = map char_upper s"

text \<open>\<^verbatim>\<open>str(n)\<close> of an integer.\<close>

fun str_nat :: "nat \<Rightarrow> string" where
  "str_nat n =
     (if n < 10 then [char_of (48 + n)] else str_nat (n div 10) @ [char_of (48 + n mod 10)])"

definition str_int :: "int \<Rightarrow> string" where
  "str_int i = (if i < 0 then CHR ''-'' # str_nat (nat (- i)) else str_nat (nat i))"

text \<open>
  \<^verbatim>\<open>repr(s)\<close> of an ASCII string: double quotes when the text has a single quote and no
  double quote, single quotes otherwise; the quote and the backslash are escaped, tab,
  newline and carriage return are written \<^verbatim>\<open>\t \n \r\<close>, other non-printable
  characters as \<^verbatim>\<open>\xhh\<close>.
\<close>

definition hex_digit :: "nat \<Rightarrow> char" where
  "hex_digit n = (if n < 10 then char_of (48 + n) else char_of (87 + n))"

definition repr_char :: "char \<Rightarrow> char \<Rightarrow> string" where
  "repr_char q c =
     (let n = (of_char c :: nat) in
      if c = q \<or> n = 92 then [char_of (92::nat), c]
      else if n = 9 then [char_of (92::nat), CHR ''t'']
      else if n = 10 then [char_of (92::nat), CHR ''n'']
      else if n = 13 then [char_of (92::nat), CHR ''r'']
      else if n < 32 \<or> 127 \<le> n
        then [char_of (92::nat), CHR ''x'', hex_digit (n div 16), hex_digit (n mod 16)]
      else [c])"

definition repr_str :: "string \<Rightarrow> string" where
  "repr_str s =
     (let q = (if char_of (39::nat) \<in> set s \<and> char_of (34::nat) \<notin> set s
               then char_of (34::nat) else char_of (39::nat))
      in q # concat (map (repr_char q) s) @ [q])"

fun join_comma :: "string list \<Rightarrow> string" where
  "join_comma [] = []"
| "join_comma [x] = x"
| "join_comma (x # y # ys) = x @ '', '' @ join_comma (y # ys)"

text \<open>
  \<^verbatim>\<open>"{}".format(v)\<close>, that is \<^verbatim>\<open>str(v)\<close>: a string is taken as it is, a list is
  written with the \<^verbatim>\<open>repr\<close> of its elements.
\<close>

fun py_str :: "pyval \<Rightarrow> string" where
  "py_str PNone = ''None''"
| "py_str (PStr s) = s"
| "py_str (PList xs) = ''['' @ join_comma (map repr_str xs) @ '']''"
| "py_str (PInt i) = str_int i"
| "py_str (PBool b) = (if b then ''True'' else ''False'')"
| "py_str (PClass c) = ''<class '' @ repr_str c @ ''>''"

text \<open>Truthiness, as \<^verbatim>\<open>not text\<close> reads it.\<close>

fun truthy :: "pyval \<Rightarrow> bool" where
  "truthy PNone = False"
| "truthy (PStr s) = (s \<noteq> [])"
| "truthy (PList xs) = (xs \<noteq> [])"
| "truthy (PInt i) = (i \<noteq> 0)"
| "truthy (PBool b) = b"
| "truthy (PClass c) = True"

text \<open>
  \<^verbatim>\<open>set(v)\<close>: the elements of a list; the one-character strings of a string; a
  \<^verbatim>\<open>TypeError\<close> for a value that is not iterable.
\<close>

fun py_set :: "pyval \<Rightarrow> string set result" where
  "py_set (PStr s) = Inr (set (map (\<lambda>c. [c]) s))"
| "py_set (PList xs) = Inr (set xs)"
| "py_set PNone = Inl TypeError"
| "py_set (PInt i) = Inl TypeError"
| "py_set (PBool b) = Inl TypeError"
| "py_set (PClass c) = Inl TypeError"

section \<open>Identifier formatter and list normalizer\<close>

text \<open>\<^verbatim>\<open>def format_case_id(chip, case_name): return "{}.{}".format(chip, case_name)\<close>\<close>

definition format_case_id :: "pyval \<Rightarrow> pyval \<Rightarrow> string" where
  "format_case_id chip case_name = py_str chip @ ''.'' @ py_str case_name"

text \<open>
  \<^verbatim>\<open>upper_list(text)\<close>: a falsy value is returned as it is; a string is uppercased; any
  other value is iterated, which raises \<^verbatim>\<open>TypeError\<close> unless it is a list.
\<close>

fun upper_list :: "pyval \<Rightarrow> pyval result" where
  "upper_list text =
     (if \<not> truthy text then Inr text
      else case text of
        PStr s \<Rightarrow> Inr (PStr (py_upper s))
      | PList xs \<Rightarrow> Inr (PList (map py_upper xs))
      | _ \<Rightarrow> Inl TypeError)"

section \<open>Target / CI-target validator\<close>

text \<open>
  Keyword arguments are a dictionary from names to values; \<open>kw_get\<close> is
  \<^verbatim>\<open>kwargs.get(key, default)\<close>.
\<close>

type_synonym kwargs = "string \<rightharpoonup> pyval"

definition kw_get :: "kwargs \<Rightarrow> string \<Rightarrow> pyval \<Rightarrow> pyval" where
  "kw_get kwargs key dflt = (case kwargs key of None \<Rightarrow> dflt | Some v \<Rightarrow> v)"

text \<open>
  \<^verbatim>\<open>ci_target_check(func)\<close> returns \<^verbatim>\<open>wrapper\<close>; \<open>ci_target_check func kwargs\<close> is
  the call \<^verbatim>\<open>wrapper(**kwargs)\<close>. The statements run in the source's order, each one
  able to raise: the two normalizations, \<^verbatim>\<open>set(ci_target)\<close>, \<^verbatim>\<open>set(target)\<close>, the
  subset test, and the call of the wrapped function with the same keyword arguments.
\<close>

definition ci_target_check :: "(kwargs \<Rightarrow> 'a result) \<Rightarrow> kwargs \<Rightarrow> 'a result" where
  "ci_target_check func kwargs =
     (case upper_list (kw_get kwargs ''target'' (PList [])) of
        Inl e \<Rightarrow> Inl e
      | Inr target \<Rightarrow>
     (case upper_list (kw_get kwargs ''ci_target'' (PList [])) of
        Inl e \<Rightarrow> Inl e
      | Inr ci_target \<Rightarrow>
     (case py_set ci_target of
        Inl e \<Rightarrow> Inl e
      | Inr cs \<Rightarrow>
     (case py_set target of
        Inl e \<Rightarrow> Inl e
      | Inr ts \<Rightarrow>
        if \<not> cs \<subseteq> ts then Inl (ValueError ''ci_target must be a subset of target'')
        else func kwargs))))"

section \<open>Registration decorators\<close>

text \<open>
  The registered function object that \<^verbatim>\<open>TinyFW.test_method(...)(func)\<close> returns: this
  module reads and writes its \<^verbatim>\<open>case_info\<close> dictionary only; whatever else the
  framework attaches lives in the record's extension.
\<close>

record test_func =
  case_info :: "string \<rightharpoonup> pyval"

text \<open>\<^verbatim>\<open>TARGET_DUT_CLS_DICT\<close>, the chip to driver-class mapping built at module load.\<close>

definition TARGET_DUT_CLS_DICT :: "(string \<times> pyval) list" where
  "TARGET_DUT_CLS_DICT =
     [(''ESP32'', PClass ''ttfw_idf.IDFDUT.ESP32DUT''),
      (''ESP32S2'', PClass ''ttfw_idf.IDFDUT.ESP32S2DUT'')]"

text \<open>
  \<^verbatim>\<open>TinyFW.test_method\<close> belongs to the package \<^verbatim>\<open>tiny_test_fw\<close>, which this module
  imports; it is a parameter of the decorators here. \<open>test_method kw dut_dict func\<close>
  stands for \<^verbatim>\<open>TinyFW.test_method(dut_dict=dut_dict, **kw)(func)\<close> and may raise.

  The nested function \<^verbatim>\<open>test(func)\<close> has the same text in the three decorators (source
  lines 81-87, 109-115 and 139-145); its free variables are the decorator's parameters.
  A key \<^verbatim>\<open>dut_dict\<close> among the extra keyword arguments collides with the explicit one
  of the call (\<^verbatim>\<open>TypeError\<close>: multiple values for a keyword argument). The identifier is
  formatted from \<^verbatim>\<open>target\<close> as the decorator received it.
\<close>

definition test ::
  "(kwargs \<Rightarrow> (string \<times> pyval) list \<Rightarrow> 'f \<Rightarrow> 'z test_func_scheme result) \<Rightarrow>
   pyval \<Rightarrow> pyval \<Rightarrow> pyval \<Rightarrow> pyval \<Rightarrow> pyval \<Rightarrow> pyval \<Rightarrow> pyval \<Rightarrow> kwargs \<Rightarrow>
   'f \<Rightarrow> 'z test_func_scheme result" where
  "test test_method app target ci_target module' execution_time level erase_nvs kwargs func =
     (case upper_list target of
        Inl e \<Rightarrow> Inl e
      | Inr upper_target \<Rightarrow>
     (case upper_list ci_target of
        Inl e \<Rightarrow> Inl e
      | Inr upper_ci_target \<Rightarrow>
        if kwargs ''dut_dict'' \<noteq> None then Inl TypeError
        else
     (case test_method
             (kwargs(''app'' \<mapsto> app, ''target'' \<mapsto> upper_target,
                     ''ci_target'' \<mapsto> upper_ci_target, ''module'' \<mapsto> module',
                     ''execution_time'' \<mapsto> execution_time, ''level'' \<mapsto> level,
                     ''erase_nvs'' \<mapsto> erase_nvs))
             TARGET_DUT_CLS_DICT func of
        Inl e \<Rightarrow> Inl e
      | Inr test_func \<Rightarrow>
     (case case_info test_func ''name'' of
        None \<Rightarrow> Inl (KeyError ''name'')
      | Some name \<Rightarrow>
          Inr (test_func\<lparr>case_info :=
                 (case_info test_func)(''ID'' \<mapsto> PStr (format_case_id target name))\<rparr>)))))"

text \<open>
  The decorator bodies, before \<^verbatim>\<open>@ci_target_check\<close> wraps them: each binds its named
  parameters from the keyword arguments (or their defaults), collects the others in
  \<^verbatim>\<open>**kwargs\<close>, and returns the closure \<^verbatim>\<open>test\<close>. \<^verbatim>\<open>config_name\<close> (and
  \<^verbatim>\<open>group\<close>) are named parameters of the example and custom decorators, so they do not
  reach \<^verbatim>\<open>**kwargs\<close> there.
\<close>

definition idf_example_test_body ::
  "(kwargs \<Rightarrow> (string \<times> pyval) list \<Rightarrow> 'f \<Rightarrow> 'z test_func_scheme result) \<Rightarrow>
   kwargs \<Rightarrow> ('f \<Rightarrow> 'z test_func_scheme result) result" where
  "idf_example_test_body test_method kw =
     Inr (test test_method
            (kw_get kw ''app'' (PClass ''ttfw_idf.IDFApp.Example''))
            (kw_get kw ''target'' (PStr ''ESP32''))
            (kw_get kw ''ci_target'' PNone)
            (kw_get kw ''module'' (PStr ''examples''))
            (kw_get kw ''execution_time'' (PInt 1))
            (kw_get kw ''level'' (PStr ''example''))
            (kw_get kw ''erase_nvs'' (PBool True))
            (kw |` (- {''app'', ''target'', ''ci_target'', ''module'', ''execution_time'',
                       ''level'', ''erase_nvs'', ''config_name''})))"

definition idf_unit_test_body ::
  "(kwargs \<Rightarrow> (string \<times> pyval) list \<Rightarrow> 'f \<Rightarrow> 'z test_func_scheme result) \<Rightarrow>
   kwargs \<Rightarrow> ('f \<Rightarrow> 'z test_func_scheme result) result" where
  "idf_unit_test_body test_method kw =
     Inr (test test_method
            (kw_get kw ''app'' (PClass ''ttfw_idf.IDFApp.UT''))
            (kw_get kw ''target'' (PStr ''ESP32''))
            (kw_get kw ''ci_target'' PNone)
            (kw_get kw ''module'' (PStr ''unit-test''))
            (kw_get kw ''execution_time'' (PInt 1))
            (kw_get kw ''level'' (PStr ''unit''))
            (kw_get kw ''erase_nvs'' (PBool True))
            (kw |` (- {''app'', ''target'', ''ci_target'', ''module'', ''execution_time'',
                       ''level'', ''erase_nvs''})))"

definition idf_custom_test_body ::
  "(kwargs \<Rightarrow> (string \<times> pyval) list \<Rightarrow> 'f \<Rightarrow> 'z test_func_scheme result) \<Rightarrow>
   kwargs \<Rightarrow> ('f \<Rightarrow> 'z test_func_scheme result) result" where
  "idf_custom_test_body test_method kw =
     Inr (test test_method
            (kw_get kw ''app'' (PClass ''ttfw_idf.IDFApp.TestApp''))
            (kw_get kw ''target'' (PStr ''ESP32''))
            (kw_get kw ''ci_target'' PNone)
            (kw_get kw ''module'' (PStr ''misc''))
            (kw_get kw ''execution_time'' (PInt 1))
            (kw_get kw ''level'' (PStr ''integration''))
            (kw_get kw ''erase_nvs'' (PBool True))
            (kw |` (- {''app'', ''target'', ''ci_target'', ''module'', ''execution_time'',
                       ''level'', ''erase_nvs'', ''config_name'', ''group''})))"

text \<open>The decorated entry points: \<^verbatim>\<open>@ci_target_check def idf_example_test(...)\<close>.\<close>

definition idf_example_test ::
  "(kwargs \<Rightarrow> (string \<times> pyval) list \<Rightarrow> 'f \<Rightarrow> 'z test_func_scheme result) \<Rightarrow>
   kwargs \<Rightarrow> ('f \<Rightarrow> 'z test_func_scheme result) result" where
  "idf_example_test test_method = ci_target_check (idf_example_test_body test_method)"

definition idf_unit_test ::
  "(kwargs \<Rightarrow> (string \<times> pyval) list \<Rightarrow> 'f \<Rightarrow> 'z test_func_scheme result) \<Rightarrow>
   kwargs \<Rightarrow> ('f \<Rightarrow> 'z test_func_scheme result) result" where
  "idf_unit_test test_method = ci_target_check (idf_unit_test_body test_method)"

definition idf_custom_test ::
  "(kwargs \<Rightarrow> (string \<times> pyval) list \<Rightarrow> 'f \<Rightarrow> 'z test_func_scheme result) \<Rightarrow>
   kwargs \<Rightarrow> ('f \<Rightarrow> 'z test_func_scheme result) result" where
  "idf_custom_test test_method = ci_target_check (idf_custom_test_body test_method)"

text \<open>
  Modelled from the spec: \<^verbatim>\<open>TinyFW.test_method\<close> (package \<^verbatim>\<open>tiny_test_fw\<close>, not part of
  this module). The spec's registration API accepts the metadata bundle and returns a
  decorator that, applied to a user function, yields a registered function whose metadata
  has a \<^verbatim>\<open>name\<close> field, the function's name or the declared case name. A user function
  is given by its name. The theorems below hold for every framework function; this one
  instantiates them.
\<close>

definition tiny_test_method :: "kwargs \<Rightarrow> (string \<times> pyval) list \<Rightarrow> string \<Rightarrow> test_func result" where
  "tiny_test_method kw dut_dict func =
     Inr \<lparr>case_info = (case kw ''name'' of
                         None \<Rightarrow> kw(''name'' \<mapsto> PStr func)
                       | Some declared \<Rightarrow> kw)\<rparr>"

text \<open>
  Decorating a function, \<^verbatim>\<open>@idf_example_test(**kw) def func(...)\<close>: the entry point is
  called with the keyword arguments and the decorator it returns is applied to the
  function. \<open>case_id\<close> reads the \<^verbatim>\<open>ID\<close> entry of the outcome's case metadata.
\<close>

definition apply_decorator :: "('f \<Rightarrow> 'r result) result \<Rightarrow> 'f \<Rightarrow> 'r result" where
  "apply_decorator deco func = (case deco of Inl e \<Rightarrow> Inl e | Inr t \<Rightarrow> t func)"

definition case_id :: "'z test_func_scheme result \<Rightarrow> pyval option" where
  "case_id r = (case r of Inl e \<Rightarrow> None | Inr tf \<Rightarrow> case_info tf ''ID'')"

section \<open>Performance threshold checker\<close>

text \<open>
  Comparison of Python numbers: exact on finite values, false whenever NaN takes part.
  \<^verbatim>\<open>a >= b\<close> is \<open>num_le b a\<close>.
\<close>

fun num_le :: "pynum \<Rightarrow> pynum \<Rightarrow> bool" where
  "num_le NaN b = False"
| "num_le a NaN = False"
| "num_le NegInf b = True"
| "num_le a PosInf = True"
| "num_le (Fin x) (Fin y) = (x \<le> y)"
| "num_le PosInf b = False"
| "num_le a NegInf = False"

text \<open>
  \<^verbatim>\<open>os.path.join\<close> (posixpath): a component that starts with the separator replaces
  what came before, otherwise it is appended after exactly one separator.
\<close>

definition path_join2 :: "string \<Rightarrow> string \<Rightarrow> string" where
  "path_join2 path b =
     (if (case b of [] \<Rightarrow> False | c # cs \<Rightarrow> c = CHR ''/'') then b
      else if path = [] \<or> last path = CHR ''/'' then path @ b
      else path @ ''/'' @ b)"

definition os_path_join :: "string \<Rightarrow> string list \<Rightarrow> string" where
  "os_path_join a ps = foldl path_join2 a ps"

text \<open>
  The regular expression
  \<^verbatim>\<open>#define\s+IDF_PERFORMANCE_(MIN|MAX)_{}\s+([\d.]+)\<close> with the uppercased metric name
  in place of the braces. The name goes into the pattern unescaped; the model reads it
  literally, which is what the pattern means for names made of letters, digits and
  underscores (\<open>metric_name\<close>), the names a C macro can carry. Each \<^verbatim>\<open>\s+\<close> is followed
  by text that cannot start with white space, so it takes the whole run of white space;
  the last group is greedy. \<^verbatim>\<open>\s\<close> and \<^verbatim>\<open>\d\<close> are those of a Python 3 text pattern on
  ASCII.
\<close>

definition is_space :: "char \<Rightarrow> bool" where
  "is_space c = (let n = (of_char c :: nat) in n = 32 \<or> (9 \<le> n \<and> n \<le> 13) \<or> (28 \<le> n \<and> n \<le> 31))"

definition is_digit :: "char \<Rightarrow> bool" where
  "is_digit c = (let n = (of_char c :: nat) in 48 \<le> n \<and> n \<le> 57)"

definition is_word_char :: "char \<Rightarrow> bool" where
  "is_word_char c =
     (let n = (of_char c :: nat) in
      (48 \<le> n \<and> n \<le> 57) \<or> (65 \<le> n \<and> n \<le> 90) \<or> (97 \<le> n \<and> n \<le> 122) \<or> n = 95)"

definition metric_name :: "string \<Rightarrow> bool" where
  "metric_name item = list_all is_word_char item"

fun strip_prefix :: "string \<Rightarrow> string \<Rightarrow> string option" where
  "strip_prefix [] s = Some s"
| "strip_prefix (p # ps) [] = None"
| "strip_prefix (p # ps) (c # cs) = (if p = c then strip_prefix ps cs else None)"

definition match_spaces :: "string \<Rightarrow> string option" where
  "match_spaces s = (case takeWhile is_space s of [] \<Rightarrow> None | c # cs \<Rightarrow> Some (dropWhile is_space s))"

definition match_op :: "string \<Rightarrow> (string \<times> string) option" where
  "match_op s =
     (case strip_prefix ''MIN'' s of
        Some r \<Rightarrow> Some (''MIN'', r)
      | None \<Rightarrow> (case strip_prefix ''MAX'' s of Some r \<Rightarrow> Some (''MAX'', r) | None \<Rightarrow> None))"

text \<open>\<open>match_at name s\<close>: the pattern matched at the start of \<open>s\<close>; the two groups.\<close>

definition match_at :: "string \<Rightarrow> string \<Rightarrow> (string \<times> string) option" where
  "match_at name s =
     (case strip_prefix ''#define'' s of None \<Rightarrow> None | Some s1 \<Rightarrow>
      case match_spaces s1 of None \<Rightarrow> None | Some s2 \<Rightarrow>
      case strip_prefix ''IDF_PERFORMANCE_'' s2 of None \<Rightarrow> None | Some s3 \<Rightarrow>
      case match_op s3 of None \<Rightarrow> None | Some (g1, s4) \<Rightarrow>
      case strip_prefix (CHR ''_'' # name) s4 of None \<Rightarrow> None | Some s5 \<Rightarrow>
      case match_spaces s5 of None \<Rightarrow> None | Some s6 \<Rightarrow>
      case takeWhile (\<lambda>c. is_digit c \<or> c = CHR ''.'') s6 of
        [] \<Rightarrow> None
      | d # ds \<Rightarrow> Some (g1, d # ds))"

text \<open>\<^verbatim>\<open>re.search\<close>: the match at the leftmost position that has one.\<close>

fun re_search :: "string \<Rightarrow> string \<Rightarrow> (string \<times> string) option" where
  "re_search name [] = match_at name []"
| "re_search name (c # cs) =
     (case match_at name (c # cs) of Some g \<Rightarrow> Some g | None \<Rightarrow> re_search name cs)"

text \<open>
  \<^verbatim>\<open>float(text)\<close> on the text of the second group, digits and periods: a
  \<^verbatim>\<open>ValueError\<close> unless there is a digit and at most one period. The value is the
  decimal number itself; the rounding to a binary64 float is left out.
\<close>

definition dec_val :: "string \<Rightarrow> nat" where
  "dec_val ds = foldl (\<lambda>a c. 10 * a + (of_char c - 48)) 0 ds"

definition py_float :: "string \<Rightarrow> pynum result" where
  "py_float s =
     (let ip = takeWhile is_digit s; rest = dropWhile is_digit s;
          bad = Inl (ValueError (''could not convert string to float: '' @ repr_str s))
      in case rest of
           [] \<Rightarrow> if ip = [] then bad else Inr (Fin (of_nat (dec_val ip)))
         | c # fs \<Rightarrow>
             if c = CHR ''.'' \<and> list_all is_digit fs \<and> (ip \<noteq> [] \<or> fs \<noteq> [])
             then Inr (Fin (of_nat (dec_val ip) + of_nat (dec_val fs) / 10 ^ length fs))
             else bad)"

text \<open>
  The world outside: \<^verbatim>\<open>IDFApp.get_sdk_path()\<close> (module \<^verbatim>\<open>IDFApp\<close>, imported) and the
  file system. \<open>read_file env path\<close> is \<^verbatim>\<open>open(path, 'r')\<close> followed by
  \<^verbatim>\<open>f.read()\<close>: the text, or the exception raised (\<open>IOError\<close> for a missing or
  unreadable file).
\<close>

record env =
  get_sdk_path :: "string result"
  read_file :: "string \<Rightarrow> string result"

text \<open>\<^verbatim>\<open>_find_perf_item(path)\<close>; a failed search has no \<^verbatim>\<open>group\<close>: \<^verbatim>\<open>AttributeError\<close>.\<close>

definition find_perf_item :: "env \<Rightarrow> string \<Rightarrow> string \<Rightarrow> (string \<times> pynum) result" where
  "find_perf_item env item path =
     (case read_file env path of
        Inl e \<Rightarrow> Inl e
      | Inr data \<Rightarrow>
     (case re_search (py_upper item) data of
        None \<Rightarrow> Inl AttributeError
      | Some (g1, g2) \<Rightarrow>
     (case py_float g2 of
        Inl e \<Rightarrow> Inl e
      | Inr v \<Rightarrow> Inr (g1, v))))"

text \<open>
  \<^verbatim>\<open>_check_perf(op, standard_value)\<close>. The nested function reads \<^verbatim>\<open>item\<close> and
  \<^verbatim>\<open>value\<close> from the enclosing call of \<^verbatim>\<open>check_performance\<close> when it runs; they are
  arguments here, \<open>value\<close> being what that variable holds at the moment of the call.
\<close>

definition check_perf :: "string \<Rightarrow> pynum \<Rightarrow> string \<Rightarrow> pynum \<Rightarrow> unit result" where
  "check_perf item value opr standard_value =
     (let ret = (if opr = ''MAX'' then num_le value standard_value
                 else num_le standard_value value)
      in if \<not> ret then Inl (AssertionError item value standard_value) else Inr ())"

text \<open>
  The loop over \<^verbatim>\<open>performance_files\<close>. \<^verbatim>\<open>IOError\<close> and \<^verbatim>\<open>AttributeError\<close> from
  \<^verbatim>\<open>_find_perf_item\<close> continue with the next file and any other exception leaves the
  function. On success the source runs \<^verbatim>\<open>op, value = _find_perf_item(performance_file)\<close>,
  which assigns the threshold to the variable \<^verbatim>\<open>value\<close> of \<^verbatim>\<open>check_performance\<close>, the
  one \<^verbatim>\<open>_check_perf\<close> reads, and then \<^verbatim>\<open>_check_perf(op, value)\<close>; \<^verbatim>\<open>break\<close> ends the
  loop. The pattern variable \<open>value\<close> below shadows the parameter in the same way.
\<close>

fun perf_loop :: "env \<Rightarrow> string \<Rightarrow> pynum \<Rightarrow> string list \<Rightarrow> unit result" where
  "perf_loop env item value [] = Inr ()"
| "perf_loop env item value (performance_file # files) =
     (case find_perf_item env item performance_file of
        Inl IOError \<Rightarrow> perf_loop env item value files
      | Inl AttributeError \<Rightarrow> perf_loop env item value files
      | Inl e \<Rightarrow> Inl e
      | Inr (opr, value) \<Rightarrow> check_perf item value opr value)"

definition performance_files :: "string \<Rightarrow> string \<Rightarrow> string list" where
  "performance_files sdk_path target =
     (let path_prefix = os_path_join sdk_path [''components'', ''idf_test'', ''include'']
      in [os_path_join path_prefix [target, ''idf_performance_target.h''],
          os_path_join path_prefix [''idf_performance.h'']])"

definition check_performance :: "env \<Rightarrow> string \<Rightarrow> pynum \<Rightarrow> string \<Rightarrow> unit result" where
  "check_performance env item value target =
     (case get_sdk_path env of
        Inl e \<Rightarrow> Inl e
      | Inr sdk_path \<Rightarrow> perf_loop env item value (performance_files sdk_path target))"

text \<open>
  A candidate file yields no threshold for a metric when it cannot be opened
  (\<^verbatim>\<open>IOError\<close>) or when its text has no match of the metric's pattern.
\<close>

definition no_threshold :: "env \<Rightarrow> string \<Rightarrow> string \<Rightarrow> bool" where
  "no_threshold env item path =
     (case read_file env path of
        Inl e \<Rightarrow> e = IOError
      | Inr data \<Rightarrow> re_search (py_upper item) data = None)"

text \<open>A file system with two threshold headers under \<^verbatim>\<open>/idf\<close>, for the examples.\<close>

definition example_env :: env where
  "example_env =
     \<lparr>get_sdk_path = Inr ''/idf'',
      read_file = (\<lambda>path.
        if path = ''/idf/components/idf_test/include/esp32/idf_performance_target.h''
          then Inr ''#define IDF_PERFORMANCE_MAX_SPILL 100.0''
        else if path = ''/idf/components/idf_test/include/idf_performance.h''
          then Inr (''// generic'' @ [char_of (10::nat)] @ ''#define  IDF_PERFORMANCE_MIN_SPILL 5.0''
                    @ [char_of (10::nat)] @ ''#define IDF_PERFORMANCE_MIN_RATE 30'')
        else Inl IOError)\<rparr>"

section \<open>The list normalizer and the identifier formatter\<close>

lemma char_upper_idem: "char_upper (char_upper c) = char_upper c"
  unfolding char_upper_def Let_def by (auto simp: mod_if)

lemma py_upper_idem: "py_upper (py_upper s) = py_upper s"
  by (simp add: py_upper_def char_upper_idem)

lemma py_upper_Nil_iff: "py_upper s = [] \<longleftrightarrow> s = []"
  by (simp add: py_upper_def)

lemma upper_list_PStr: "upper_list (PStr s) = Inr (PStr (py_upper s))"
  by (simp add: py_upper_def)

lemma upper_list_PList: "upper_list (PList xs) = Inr (PList (map py_upper xs))"
  by simp

lemma upper_list_error: "upper_list x = Inl e \<Longrightarrow> e = TypeError"
  by (cases x) (auto split: if_splits)

text \<open>
  C8. For a chip token \<open>t\<close> and a case name \<open>c\<close>, both strings, \<open>format_case_id\<close> returns
  \<open>t\<close>, a period and \<open>c\<close>, the token taken as it is; \<^verbatim>\<open>format_case_id("ESP32",
  "test_foo")\<close> is \<^verbatim>\<open>"ESP32.test_foo"\<close>.
\<close>

theorem format_case_id_string:
  "format_case_id (PStr t) (PStr c) = t @ ''.'' @ c \<and>
   format_case_id (PStr ''ESP32'') (PStr ''test_foo'') = ''ESP32.test_foo''"
  by (simp add: format_case_id_def)

text \<open>
  C10. The normalizer is idempotent: normalizing the outcome of a normalization changes
  nothing, for \<^verbatim>\<open>None\<close>, a string, a list of strings, and also where it raises.
\<close>

theorem upper_list_idempotent: "bind_result (upper_list x) upper_list = upper_list x"
proof (cases x)
  case (PStr s)
  then show ?thesis
    by (simp add: bind_result_def py_upper_idem py_upper_Nil_iff)
next
  case (PList xs)
  then show ?thesis
    by (simp add: bind_result_def py_upper_idem)
qed (simp_all add: bind_result_def)

text \<open>
  C6. The normalizer returns \<^verbatim>\<open>None\<close> and the empty string and list unchanged, returns
  the uppercase form of a string (\<^verbatim>\<open>"esp32"\<close> gives \<^verbatim>\<open>"ESP32"\<close>), and for a list
  returns the list of the uppercased elements, of the same length and in the same order
  (\<^verbatim>\<open>["esp32","esp32s2"]\<close> gives \<^verbatim>\<open>["ESP32","ESP32S2"]\<close>).
\<close>

theorem upper_list_contract:
  "upper_list PNone = Inr PNone \<and>
   upper_list (PStr []) = Inr (PStr []) \<and>
   upper_list (PList []) = Inr (PList []) \<and>
   upper_list (PStr s) = Inr (PStr (py_upper s)) \<and>
   upper_list (PStr ''esp32'') = Inr (PStr ''ESP32'') \<and>
   upper_list (PList xs) = Inr (PList (map py_upper xs)) \<and>
   length (map py_upper xs) = length xs \<and>
   (\<forall>i < length xs. map py_upper xs ! i = py_upper (xs ! i)) \<and>
   upper_list (PList [''esp32'', ''esp32s2'']) = Inr (PList [''ESP32'', ''ESP32S2''])"
proof -
  have a: "upper_list (PStr ''esp32'') = Inr (PStr ''ESP32'')"
    by code_simp
  have b: "upper_list (PList [''esp32'', ''esp32s2'']) = Inr (PList [''ESP32'', ''ESP32S2''])"
    by code_simp
  show ?thesis
    using a b upper_list_PStr [of s] upper_list_PList [of xs] by simp
qed

theorem upper_list_contract_witness:
  "(0::nat) < length [''esp32'', ''esp32s2''] \<and>
   map py_upper [''esp32'', ''esp32s2''] ! 0 = py_upper ([''esp32'', ''esp32s2''] ! 0) \<and>
   upper_list (PList [''esp32'', ''esp32s2'']) = Inr (PList [''ESP32'', ''ESP32S2''])"
  using upper_list_contract [of "[]" "[''esp32'', ''esp32s2'']"] by simp

section \<open>The validator\<close>

text \<open>
  The three keyword dictionaries on which the validator is compared with the subset
  relation between chip names: a string \<^verbatim>\<open>ci_target\<close> that is not the string target; a
  list \<^verbatim>\<open>ci_target\<close> holding exactly the string target; a list \<^verbatim>\<open>ci_target\<close> holding
  the default target, with \<^verbatim>\<open>target\<close> omitted.
\<close>

lemma ci_target_check_chars_accepted:
  "ci_target_check f [''target'' \<mapsto> PStr ''esp32s2'', ''ci_target'' \<mapsto> PStr ''esp32'']
     = f [''target'' \<mapsto> PStr ''esp32s2'', ''ci_target'' \<mapsto> PStr ''esp32'']"
proof -
  let ?kw = "[''target'' \<mapsto> PStr ''esp32s2'', ''ci_target'' \<mapsto> PStr ''esp32'']"
  have t: "upper_list (kw_get ?kw ''target'' (PList [])) = Inr (PStr ''ESP32S2'')"
    by code_simp
  have c: "upper_list (kw_get ?kw ''ci_target'' (PList [])) = Inr (PStr ''ESP32'')"
    by code_simp
  show ?thesis
    unfolding ci_target_check_def t c by simp
qed

lemma ci_target_check_same_chip_rejected:
  "ci_target_check f [''target'' \<mapsto> PStr ''ESP32'', ''ci_target'' \<mapsto> PList [''ESP32'']]
     = Inl (ValueError ''ci_target must be a subset of target'')"
proof -
  let ?kw = "[''target'' \<mapsto> PStr ''ESP32'', ''ci_target'' \<mapsto> PList [''ESP32'']]"
  have t: "upper_list (kw_get ?kw ''target'' (PList [])) = Inr (PStr ''ESP32'')"
    by code_simp
  have c: "upper_list (kw_get ?kw ''ci_target'' (PList [])) = Inr (PList [''ESP32''])"
    by code_simp
  show ?thesis
    unfolding ci_target_check_def t c by simp
qed

lemma ci_target_check_default_target_rejected:
  "ci_target_check f [''ci_target'' \<mapsto> PList [''ESP32'']]
     = Inl (ValueError ''ci_target must be a subset of target'')"
proof -
  let ?kw = "[''ci_target'' \<mapsto> PList [''ESP32'']]"
  have t: "upper_list (kw_get ?kw ''target'' (PList [])) = Inr (PList [])"
    by code_simp
  have c: "upper_list (kw_get ?kw ''ci_target'' (PList [])) = Inr (PList [''ESP32''])"
    by code_simp
  show ?thesis
    unfolding ci_target_check_def t c by simp
qed

text \<open>
  C3. The claim says that registration aborts exactly when the CI-target set is not a
  subset of the target set, and proceeds otherwise, also when the two are equal. The sets
  the code compares are not sets of chip names: a string is split into its characters and
  an omitted \<^verbatim>\<open>target\<close> counts as empty, though the decorators default it to
  \<^verbatim>\<open>"ESP32"\<close>. So, in each of the three decorators,
  \<^verbatim>\<open>target="esp32s2", ci_target="esp32"\<close> is accepted although \<^verbatim>\<open>ESP32\<close> is not among
  the targets (the characters of \<^verbatim>\<open>ESP32\<close> all occur in \<^verbatim>\<open>ESP32S2\<close>);
  \<^verbatim>\<open>target="ESP32", ci_target=["ESP32"]\<close> is rejected although the sets are equal; and
  \<^verbatim>\<open>ci_target=["ESP32"]\<close> with the target left to its default is rejected.
\<close>

theorem ci_target_check_not_chip_subset:
  "ci_target_check func [''target'' \<mapsto> PStr ''esp32s2'', ''ci_target'' \<mapsto> PStr ''esp32'']
     = func [''target'' \<mapsto> PStr ''esp32s2'', ''ci_target'' \<mapsto> PStr ''esp32''] \<and>
   idf_example_test tm [''target'' \<mapsto> PStr ''esp32s2'', ''ci_target'' \<mapsto> PStr ''esp32'']
     = idf_example_test_body tm [''target'' \<mapsto> PStr ''esp32s2'', ''ci_target'' \<mapsto> PStr ''esp32''] \<and>
   idf_unit_test tm [''target'' \<mapsto> PStr ''esp32s2'', ''ci_target'' \<mapsto> PStr ''esp32'']
     = idf_unit_test_body tm [''target'' \<mapsto> PStr ''esp32s2'', ''ci_target'' \<mapsto> PStr ''esp32''] \<and>
   idf_custom_test tm [''target'' \<mapsto> PStr ''esp32s2'', ''ci_target'' \<mapsto> PStr ''esp32'']
     = idf_custom_test_body tm [''target'' \<mapsto> PStr ''esp32s2'', ''ci_target'' \<mapsto> PStr ''esp32''] \<and>
   ci_target_check func [''target'' \<mapsto> PStr ''ESP32'', ''ci_target'' \<mapsto> PList [''ESP32'']]
     = Inl (ValueError ''ci_target must be a subset of target'') \<and>
   idf_example_test tm [''target'' \<mapsto> PStr ''ESP32'', ''ci_target'' \<mapsto> PList [''ESP32'']]
     = Inl (ValueError ''ci_target must be a subset of target'') \<and>
   idf_unit_test tm [''target'' \<mapsto> PStr ''ESP32'', ''ci_target'' \<mapsto> PList [''ESP32'']]
     = Inl (ValueError ''ci_target must be a subset of target'') \<and>
   idf_custom_test tm [''target'' \<mapsto> PStr ''ESP32'', ''ci_target'' \<mapsto> PList [''ESP32'']]
     = Inl (ValueError ''ci_target must be a subset of target'') \<and>
   ci_target_check func [''ci_target'' \<mapsto> PList [''ESP32'']]
     = Inl (ValueError ''ci_target must be a subset of target'') \<and>
   idf_example_test tm [''ci_target'' \<mapsto> PList [''ESP32'']]
     = Inl (ValueError ''ci_target must be a subset of target'') \<and>
   idf_unit_test tm [''ci_target'' \<mapsto> PList [''ESP32'']]
     = Inl (ValueError ''ci_target must be a subset of target'') \<and>
   idf_custom_test tm [''ci_target'' \<mapsto> PList [''ESP32'']]
     = Inl (ValueError ''ci_target must be a subset of target'')"
  unfolding idf_example_test_def idf_unit_test_def idf_custom_test_def
    ci_target_check_chars_accepted ci_target_check_same_chip_rejected
    ci_target_check_default_target_rejected
  by simp

lemma ci_target_check_None:
  assumes "kw ''ci_target'' = Some PNone"
  shows "ci_target_check f kw = Inl TypeError"
proof (cases "upper_list (kw_get kw ''target'' (PList []))")
  case (Inl e)
  then show ?thesis
    using upper_list_error [OF Inl] by (simp add: ci_target_check_def)
next
  case (Inr t)
  then show ?thesis
    using assms by (simp add: ci_target_check_def kw_get_def)
qed

lemma ci_target_check_unset:
  assumes "kw ''ci_target'' = None"
    and "kw ''target'' = None \<or> (\<exists>s. kw ''target'' = Some (PStr s)) \<or>
         (\<exists>xs. kw ''target'' = Some (PList xs))"
  shows "ci_target_check f kw = f kw"
  using assms by (auto simp: ci_target_check_def kw_get_def)

text \<open>
  C9. With \<^verbatim>\<open>ci_target\<close> explicitly bound to \<^verbatim>\<open>None\<close> the validator raises
  \<^verbatim>\<open>TypeError\<close> (\<^verbatim>\<open>set(None)\<close>), for each of the three decorators and whatever the
  target. With \<^verbatim>\<open>ci_target\<close> omitted, and a target that is omitted, a string or a list,
  the check passes and the wrapped logic runs.
\<close>

theorem ci_target_none_type_error:
  "(kw ''ci_target'' = Some PNone \<longrightarrow>
      ci_target_check func kw = Inl TypeError \<and>
      idf_example_test tm kw = Inl TypeError \<and>
      idf_unit_test tm kw = Inl TypeError \<and>
      idf_custom_test tm kw = Inl TypeError) \<and>
   (kw ''ci_target'' = None \<and>
    (kw ''target'' = None \<or> (\<exists>s. kw ''target'' = Some (PStr s)) \<or>
     (\<exists>xs. kw ''target'' = Some (PList xs))) \<longrightarrow>
      ci_target_check func kw = func kw \<and>
      idf_example_test tm kw = idf_example_test_body tm kw \<and>
      idf_unit_test tm kw = idf_unit_test_body tm kw \<and>
      idf_custom_test tm kw = idf_custom_test_body tm kw)"
  unfolding idf_example_test_def idf_unit_test_def idf_custom_test_def
  by (intro conjI impI ci_target_check_None ci_target_check_unset) simp_all

theorem ci_target_none_type_error_witness:
  "ci_target_check Inr [''target'' \<mapsto> PStr ''esp32'', ''ci_target'' \<mapsto> PNone] = (Inl TypeError :: kwargs result) \<and>
   ci_target_check Inr [''target'' \<mapsto> PStr ''esp32''] = Inr [''target'' \<mapsto> PStr ''esp32'']"
  using ci_target_none_type_error
          [of "[''target'' \<mapsto> PStr ''esp32'', ''ci_target'' \<mapsto> PNone]" Inr tiny_test_method]
    ci_target_none_type_error [of "[''target'' \<mapsto> PStr ''esp32'']" Inr tiny_test_method]
  by simp

text \<open>
  C2. The claim says that \<^verbatim>\<open>target=["esp32","esp32s2"], ci_target="esp32"\<close> is accepted.
  On the code the call raises the configuration error in each of the three decorators:
  \<^verbatim>\<open>set("ESP32")\<close> is the set of the one-character strings \<^verbatim>\<open>E, S, P, 3, 2\<close>, none of
  which is an element of \<^verbatim>\<open>{"ESP32", "ESP32S2"}\<close>.
\<close>

theorem ci_target_string_rejected:
  "idf_example_test tm [''target'' \<mapsto> PList [''esp32'', ''esp32s2''], ''ci_target'' \<mapsto> PStr ''esp32'']
     = Inl (ValueError ''ci_target must be a subset of target'') \<and>
   idf_unit_test tm [''target'' \<mapsto> PList [''esp32'', ''esp32s2''], ''ci_target'' \<mapsto> PStr ''esp32'']
     = Inl (ValueError ''ci_target must be a subset of target'') \<and>
   idf_custom_test tm [''target'' \<mapsto> PList [''esp32'', ''esp32s2''], ''ci_target'' \<mapsto> PStr ''esp32'']
     = Inl (ValueError ''ci_target must be a subset of target'')"
proof -
  let ?kw = "[''target'' \<mapsto> PList [''esp32'', ''esp32s2''], ''ci_target'' \<mapsto> PStr ''esp32'']"
  have t: "upper_list (kw_get ?kw ''target'' (PList [])) = Inr (PList [''ESP32'', ''ESP32S2''])"
    by code_simp
  have c: "upper_list (kw_get ?kw ''ci_target'' (PList [])) = Inr (PStr ''ESP32'')"
    by code_simp
  have ck: "ci_target_check f ?kw = Inl (ValueError ''ci_target must be a subset of target'')"
    for f :: "kwargs \<Rightarrow> 'c result"
    unfolding ci_target_check_def t c by simp
  show ?thesis
    unfolding idf_example_test_def idf_unit_test_def idf_custom_test_def ck by simp
qed

section \<open>The case identifier\<close>

lemma test_stamps_id:
  assumes "test tm app target ci_target module' execution_time level erase_nvs kwargs func = Inr tf"
  shows "\<exists>name. case_info tf ''name'' = Some name \<and>
           case_info tf ''ID'' = Some (PStr (format_case_id target name))"
  using assms unfolding test_def
  by (auto split: sum.splits if_splits option.splits)

lemma apply_body_id:
  assumes "d = idf_example_test_body tm \<or> d = idf_unit_test_body tm \<or> d = idf_custom_test_body tm"
    and "apply_decorator (d kw) func = Inr tf"
  shows "\<exists>name. case_info tf ''name'' = Some name \<and>
           case_info tf ''ID'' =
             Some (PStr (format_case_id (kw_get kw ''target'' (PStr ''ESP32'')) name))"
  using assms
  by (auto simp: apply_decorator_def idf_example_test_body_def idf_unit_test_body_def
        idf_custom_test_body_def dest: test_stamps_id)

lemma ci_target_check_Inr: "ci_target_check f kw = Inr r \<Longrightarrow> f kw = Inr r"
  unfolding ci_target_check_def by (auto split: sum.splits if_splits)

text \<open>
  C7, as amended. For each of the three decorators, when the registration succeeds the
  identifier stored under \<^verbatim>\<open>ID\<close> is \<open>format_case_id\<close> of the target as the caller passed
  it (\<^verbatim>\<open>"ESP32"\<close> when omitted) and of the case name in the metadata; the target is not
  uppercased for the identifier. For a string target \<open>t\<close> and a string name \<open>c\<close> the
  identifier is \<open>t.c\<close>, which is the uppercase form only when \<open>t\<close> is uppercase already.
\<close>

theorem case_id_from_target_as_passed:
  assumes "d = idf_example_test tm \<or> d = idf_unit_test tm \<or> d = idf_custom_test tm"
    and "apply_decorator (d kw) func = Inr tf"
  shows "\<exists>name. case_info tf ''name'' = Some name \<and>
           case_info tf ''ID'' =
             Some (PStr (format_case_id (kw_get kw ''target'' (PStr ''ESP32'')) name)) \<and>
           (\<forall>t c. kw_get kw ''target'' (PStr ''ESP32'') = PStr t \<and> name = PStr c \<longrightarrow>
              case_info tf ''ID'' = Some (PStr (t @ ''.'' @ c)))"
proof -
  obtain t where t: "d kw = Inr t" and tf: "t func = Inr tf"
    using assms(2) by (auto simp: apply_decorator_def split: sum.splits)
  obtain b where b: "b = idf_example_test_body tm \<or> b = idf_unit_test_body tm \<or> b = idf_custom_test_body tm"
    and bk: "b kw = Inr t"
    using assms(1) t
    by (auto simp: idf_example_test_def idf_unit_test_def idf_custom_test_def
          dest: ci_target_check_Inr)
  have "apply_decorator (b kw) func = Inr tf"
    using bk tf by (simp add: apply_decorator_def)
  from apply_body_id [OF b this] show ?thesis
    by (auto simp: format_case_id_def)
qed

text \<open>
  C7 as stated fails: decorating \<^verbatim>\<open>test_foo\<close> with \<^verbatim>\<open>target="esp32"\<close> stores the
  identifier \<^verbatim>\<open>esp32.test_foo\<close>, not \<^verbatim>\<open>ESP32.test_foo\<close>.
\<close>

theorem case_id_not_uppercased:
  "case_id (apply_decorator (idf_example_test tiny_test_method [''target'' \<mapsto> PStr ''esp32'']) ''test_foo'')
     = Some (PStr ''esp32.test_foo'') \<and>
   case_id (apply_decorator (idf_example_test tiny_test_method [''target'' \<mapsto> PStr ''esp32'']) ''test_foo'')
     \<noteq> Some (PStr ''ESP32.test_foo'')"
  by code_simp

theorem case_id_from_target_as_passed_witness:
  "\<exists>tf. apply_decorator (idf_custom_test tiny_test_method [''target'' \<mapsto> PStr ''esp32'']) ''test_foo'' = Inr tf \<and>
     case_info tf ''name'' = Some (PStr ''test_foo'') \<and>
     case_info tf ''ID'' = Some (PStr ''esp32.test_foo'')"
proof -
  let ?kw = "[''target'' \<mapsto> PStr ''esp32'']"
  let ?r = "apply_decorator (idf_custom_test tiny_test_method ?kw) ''test_foo''"
  have "case ?r of Inl e \<Rightarrow> False | Inr tf \<Rightarrow> case_info tf ''name'' = Some (PStr ''test_foo'')"
    by code_simp
  then obtain tf where tf: "?r = Inr tf" and nm: "case_info tf ''name'' = Some (PStr ''test_foo'')"
    by (cases ?r) auto
  have k: "kw_get ?kw ''target'' (PStr ''ESP32'') = PStr ''esp32''"
    by (simp add: kw_get_def)
  from case_id_from_target_as_passed [of "idf_custom_test tiny_test_method" tiny_test_method ?kw, OF _ tf]
  show ?thesis using tf nm k by auto
qed

section \<open>The performance check\<close>

lemma py_float_Fin: "py_float s = Inr v \<Longrightarrow> \<exists>x. v = Fin x"
  unfolding py_float_def Let_def by (auto split: list.splits if_splits)

lemma find_perf_item_Fin: "find_perf_item env item path = Inr (g, v) \<Longrightarrow> \<exists>x. v = Fin x"
  unfolding find_perf_item_def
  by (auto split: sum.splits option.splits dest: py_float_Fin)

lemma check_perf_same: "check_perf item (Fin x) opr (Fin x) = Inr ()"
  by (simp add: check_perf_def)

text \<open>
  The outcome of the check does not depend on the measured value: once a threshold is
  found it is the threshold that is compared with itself.
\<close>

lemma perf_loop_value_irrelevant:
  "perf_loop env item v files = perf_loop env item v' files"
  by (induction files) (auto split: sum.splits error.splits)

lemma check_performance_value_irrelevant:
  "check_performance env item v target = check_performance env item v' target"
  unfolding check_performance_def
  by (auto split: sum.splits intro: perf_loop_value_irrelevant)

lemma perf_loop_first_match:
  assumes "find_perf_item env item f = Inr (opr, t)"
  shows "perf_loop env item value (f # files) = Inr ()"
  using assms find_perf_item_Fin [OF assms] by (auto simp: check_perf_same)

lemma find_perf_item_no_threshold:
  "no_threshold env item path \<Longrightarrow>
   find_perf_item env item path = Inl IOError \<or> find_perf_item env item path = Inl AttributeError"
  unfolding no_threshold_def find_perf_item_def by (auto split: sum.splits)

lemma perf_loop_no_threshold:
  "list_all (no_threshold env item) files \<Longrightarrow> perf_loop env item value files = Inr ()"
proof (induction files)
  case Nil
  then show ?case by simp
next
  case (Cons f files)
  then have "find_perf_item env item f = Inl IOError \<or> find_perf_item env item f = Inl AttributeError"
    by (simp add: find_perf_item_no_threshold)
  with Cons show ?case by auto
qed

text \<open>
  C5. For a metric name of letters, digits and underscores, any measured value and any
  target chip: when neither candidate file yields a match, because it cannot be opened or
  because its text does not define the metric, \<open>check_performance\<close> returns normally.
\<close>

theorem check_performance_no_threshold:
  assumes "metric_name item"
    and "get_sdk_path env = Inr sdk_path"
    and "list_all (no_threshold env item) (performance_files sdk_path target)"
  shows "check_performance env item value target = Inr ()"
  using assms(2,3) by (simp add: check_performance_def perf_loop_no_threshold)

theorem check_performance_no_threshold_witness:
  "check_performance example_env ''nothing'' (Fin 7) ''esp32'' = Inr () \<and>
   check_performance example_env ''spill_rate'' NaN ''esp32s2'' = Inr ()"
proof -
  have m1: "metric_name ''nothing''" by code_simp
  have m2: "metric_name ''spill_rate''" by code_simp
  have s: "get_sdk_path example_env = Inr ''/idf''" by (simp add: example_env_def)
  have n1: "list_all (no_threshold example_env ''nothing'') (performance_files ''/idf'' ''esp32'')"
    by code_simp
  have n2: "list_all (no_threshold example_env ''spill_rate'') (performance_files ''/idf'' ''esp32s2'')"
    by code_simp
  show ?thesis
    using check_performance_no_threshold [OF m1 s n1] check_performance_no_threshold [OF m2 s n2]
    by simp
qed

text \<open>
  C1. The claim says that a measured value above a \<^verbatim>\<open>MAX\<close> threshold, or below a
  \<^verbatim>\<open>MIN\<close> threshold, raises. On the code the check returns normally: with the record
  \<^verbatim>\<open>(MAX, 100.0)\<close> resolved for \<^verbatim>\<open>spill\<close> the value 100.1 passes, and with
  \<^verbatim>\<open>(MIN, 30)\<close> resolved for \<^verbatim>\<open>rate\<close> the value 4.9 passes.
\<close>

theorem check_performance_passes_violation:
  "find_perf_item example_env ''spill''
     ''/idf/components/idf_test/include/esp32/idf_performance_target.h'' = Inr (''MAX'', Fin 100) \<and>
   \<not> num_le (Fin 100.1) (Fin 100) \<and>
   check_performance example_env ''spill'' (Fin 100.1) ''esp32'' = Inr () \<and>
   find_perf_item example_env ''rate''
     ''/idf/components/idf_test/include/idf_performance.h'' = Inr (''MIN'', Fin 30) \<and>
   \<not> num_le (Fin 30) (Fin 4.9) \<and>
   check_performance example_env ''rate'' (Fin 4.9) ''esp32'' = Inr ()"
  by code_simp

text \<open>
  C4. The metric \<^verbatim>\<open>spill\<close> is defined as \<^verbatim>\<open>MAX 100.0\<close> in the target-specific file and
  as \<^verbatim>\<open>MIN 5.0\<close> in the generic one. The claim says the target-specific record is
  enforced, so that the value 150 is rejected, as \<open>check_perf\<close> with the measured value
  would; on the code the call returns normally.
\<close>

theorem check_performance_target_record_not_enforced:
  "performance_files ''/idf'' ''esp32'' =
     [''/idf/components/idf_test/include/esp32/idf_performance_target.h'',
      ''/idf/components/idf_test/include/idf_performance.h''] \<and>
   find_perf_item example_env ''spill''
     ''/idf/components/idf_test/include/esp32/idf_performance_target.h'' = Inr (''MAX'', Fin 100) \<and>
   find_perf_item example_env ''spill''
     ''/idf/components/idf_test/include/idf_performance.h'' = Inr (''MIN'', Fin 5) \<and>
   check_perf ''spill'' (Fin 150) ''MAX'' (Fin 100) = Inl (AssertionError ''spill'' (Fin 150) (Fin 100)) \<and>
   check_performance example_env ''spill'' (Fin 150) ''esp32'' = Inr ()"
  by code_simp

text \<open>
  The scan order itself is the claimed one: when the first candidate, the target-specific
  file, yields a record, the outcome is that of \<^verbatim>\<open>_check_perf\<close> on that record, and no
  other file is read.
\<close>

lemma perf_scan_order:
  assumes "get_sdk_path env = Inr sdk_path"
    and "performance_files sdk_path target = specific # others"
    and "find_perf_item env item specific = Inr (opr, t)"
  shows "check_performance env item value target = check_perf item t opr t"
  using assms by (simp add: check_performance_def)

end
